theory Spec2Isabelle
  imports Main
begin

section \<open>The instance-provisioning command \<open>cmd/coordinator/buildongce/create.go\<close>\<close>

text \<open>
  The command is one sequential run: flags are adjusted, a credential is acquired, the
  external address and the boot disk are resolved, the instance description is built,
  the create request is submitted and the resulting operation is polled.  Every call
  that leaves the process (files, console, the OAuth endpoint, the compute provider)
  is answered by a \<open>world\<close> record, and every effect the run performs is appended to
  a trace of events.  \<open>log.Fatalf\<close> ends the run: it is the \<open>Inl\<close> branch of the result.
\<close>

subsection \<open>Flags\<close>

type_synonym error = string

record flags =
  proj :: string
  zone :: string
  mach :: string
  instName :: string
  sshPub :: string
  staticIP :: string
  reuseDisk :: bool
  ssd :: bool
  coordinator :: string
  staging :: bool

text \<open>The declared defaults of the \<open>flag.String\<close> and \<open>flag.Bool\<close> variables.\<close>

definition defaultFlags :: flags where
  "defaultFlags =
     \<lparr> proj = ''symbolic-datum-552'', zone = ''us-central1-f'', mach = ''n1-standard-4'',
       instName = ''farmer'', sshPub = '''', staticIP = '''', reuseDisk = True, ssd = True,
       coordinator = ''https://storage.googleapis.com/go-builder-data/coordinator'',
       staging = False \<rparr>"

definition stagingPrefix :: "flags \<Rightarrow> string" where
  "stagingPrefix f = (if staging f then ''staging-'' else '''')"

subsection \<open>Values of the compute and OAuth client libraries\<close>

text \<open>
  Only the fields the command reads or writes are kept.  A Go pointer that may be nil
  is an \<open>option\<close>; the zero value of a string field is the empty string.
\<close>

record Address =
  addr_Name :: string
  addr_Status :: string
  addr_Address :: string

record Disk =
  disk_Name :: string
  disk_SelfLink :: string

record AttachedDiskInitializeParams =
  DiskName :: string
  SourceImage :: string
  DiskSizeGb :: int
  DiskType :: string

record AttachedDisk =
  AutoDelete :: bool
  Boot :: bool
  DeviceName :: string
  ad_Type :: string
  Source :: string
  Mode :: string
  InitializeParams :: "AttachedDiskInitializeParams option"

record AccessConfig =
  ac_Type :: string
  ac_Name :: string
  NatIP :: string

record NetworkInterface =
  AccessConfigs :: "AccessConfig list"
  Network :: string

record ServiceAccount =
  Email :: string
  Scopes :: "string list"

record Instance =
  inst_Name :: string
  Description :: string
  MachineType :: string
  Disks :: "AttachedDisk list"
  Tags :: "string list"
  Metadata :: "(string \<times> string) list"
  NetworkInterfaces :: "NetworkInterface list"
  ServiceAccounts :: "ServiceAccount list"

record OperationErrorErrors =
  Code :: string
  Location :: string
  Message :: string

record Operation =
  op_Name :: string
  op_Status :: string
  op_Error :: "OperationErrorErrors list option"

text \<open>
  \<open>op_Error\<close> is the pointer \<open>op.Error\<close> together with the slice \<open>op.Error.Errors\<close>
  behind it: \<open>None\<close> is the nil pointer, \<open>Some es\<close> a present error object whose list
  is \<open>es\<close> (possibly empty).
\<close>

record Token =
  AccessToken :: string
  TokenType :: string
  RefreshToken :: string
  Expiry :: int

text \<open>
  A token source is either the one found by \<open>google.DefaultTokenSource\<close> or the value
  built by \<open>oauth2.ReuseTokenSource t src\<close>, whose \<open>src\<close> is here a token cache file
  or nil.
\<close>

datatype TokenSource =
    DefaultSource
  | ReuseTokenSource "Token option" "string option"

text \<open>The scope constants of the compute client library.\<close>

definition DevstorageFullControlScope :: string where
  "DevstorageFullControlScope = ''https://www.googleapis.com/auth/devstorage.full_control''"

definition DevstorageReadWriteScope :: string where
  "DevstorageReadWriteScope = ''https://www.googleapis.com/auth/devstorage.read_write''"

definition ComputeScope :: string where
  "ComputeScope = ''https://www.googleapis.com/auth/compute''"

definition CloudPlatformScope :: string where
  "CloudPlatformScope = ''https://www.googleapis.com/auth/cloud-platform''"

subsection \<open>The world, the trace and fatal exits\<close>

text \<open>
  Each field answers one kind of call.  \<open>ZoneOperations_Get\<close> takes the number of
  polls already made, so that a world describes a whole sequence of poll responses.
  \<open>strings_TrimSpace\<close> and the JSON codec are functions of the Go libraries; the
  model takes them as given and no theorem below depends on what they compute.
\<close>

record world =
  Getenv :: "string \<Rightarrow> string"
  ReadFile :: "string \<Rightarrow> error + string"
  WriteFile :: "string \<Rightarrow> string \<Rightarrow> error option"
  strings_TrimSpace :: "string \<Rightarrow> string"
  json_Marshal :: "Token \<Rightarrow> error + string"
  json_Unmarshal :: "string \<Rightarrow> error + Token"
  DefaultTokenSource :: "error + TokenSource"
  stdin_line :: string
  Exchange :: "string \<Rightarrow> error + Token"
  Addresses_AggregatedList :: "string \<Rightarrow> error + (string \<times> Address list) list"
  Disks_List :: "string \<Rightarrow> string \<Rightarrow> error + Disk list"
  Instances_Insert :: "string \<Rightarrow> string \<Rightarrow> Instance \<Rightarrow> error + Operation"
  ZoneOperations_Get :: "nat \<Rightarrow> string \<Rightarrow> string \<Rightarrow> string \<Rightarrow> error + Operation"
  Instances_Get :: "string \<Rightarrow> string \<Rightarrow> string \<Rightarrow> error + Instance"

datatype logmsg =
    ErrorGettingToken string error
  | GetAuthCodeFrom string
  | CreatingInstance
  | CreatedWaiting string
  | WaitingOnOperation string
  | OpError OperationErrorErrors
  | Success Operation
  | InstanceJSON Instance

datatype event =
    Log logmsg
  | Print string
  | ExchangeCall string
  | WriteFileCall string string
  | AggregatedListCall string
  | DisksListCall string string
  | InsertCall string string Instance
  | Sleep nat
  | OperationsGetCall string string string
  | InstancesGetCall string string string

text \<open>One constructor for each \<open>log.Fatalf\<close> and \<open>log.Fatal\<close> of the file, with its arguments.\<close>

datatype fatal =
    MissingProjectFlag
  | ErrorReading string error
  | AggregatedListFailed error
  | ConfigTooLarge nat nat
  | ErrorListingDisks error
  | FailedToCreateInstance error
  | FailedToGetOp string error
  | FailedToStart
  | UnknownStatus string Operation
  | ErrorGettingInstance error
  | ErrorExchanging error
  | ErrorWriting string error

type_synonym 'a res = "(fatal + 'a) \<times> event list"

definition ok :: "'a \<Rightarrow> 'a res" where
  "ok v = (Inr v, [])"

definition fatalf :: "fatal \<Rightarrow> 'a res" where
  "fatalf e = (Inl e, [])"

definition emit :: "event \<Rightarrow> unit res" where
  "emit ev = (Inr (), [ev])"

definition andThen :: "'a res \<Rightarrow> ('a \<Rightarrow> 'b res) \<Rightarrow> 'b res" where
  "andThen m k =
     (case m of
        (Inl e, t) \<Rightarrow> (Inl e, t)
      | (Inr v, t) \<Rightarrow> (case k v of (r, t') \<Rightarrow> (r, t @ t')))"

subsection \<open>\<open>readFile\<close>\<close>

definition readFile :: "world \<Rightarrow> string \<Rightarrow> string res" where
  "readFile w v =
     (case ReadFile w v of
        Inl err \<Rightarrow> fatalf (ErrorReading v err)
      | Inr slurp \<Rightarrow> ok (strings_TrimSpace w slurp))"

subsection \<open>The token cache file\<close>

definition tokenCacheFile_Token :: "world \<Rightarrow> string \<Rightarrow> error + Token" where
  "tokenCacheFile_Token w f =
     (case ReadFile w f of
        Inl err \<Rightarrow> Inl err
      | Inr slurp \<Rightarrow> json_Unmarshal w slurp)"

definition tokenCacheFile_WriteToken :: "world \<Rightarrow> string \<Rightarrow> Token \<Rightarrow> error option \<times> event list" where
  "tokenCacheFile_WriteToken w f t =
     (case json_Marshal w t of
        Inl err \<Rightarrow> (Some err, [])
      | Inr jt \<Rightarrow> (WriteFile w f jt, [WriteFileCall f jt]))"

subsection \<open>\<open>tokenSource\<close>\<close>

text \<open>
  The function declares two variables whose names differ in one letter:
  \<open>tokensource\<close>, declared with \<open>var\<close> and never assigned, and \<open>tokenSource\<close>, which
  receives every token source the function builds.  The early return gives back
  \<open>tokenSource\<close>; the final \<open>return\<close> gives back \<open>tokensource\<close>.  The model keeps
  both: \<open>tokensource\<close> is the nil interface value \<open>None\<close> throughout.

  \<open>tokenSource.Token()\<close> on \<open>ReuseTokenSource(nil, tokenFile)\<close> holds no token yet, so
  it is the call \<open>tokenFile.Token()\<close>.
\<close>

definition tokenSource :: "flags \<Rightarrow> world \<Rightarrow> TokenSource option res" where
  "tokenSource f w =
     (let tokensource = None in
      case DefaultTokenSource w of
        Inr tokenSource0 \<Rightarrow> ok (Some tokenSource0)
      | Inl err0 \<Rightarrow>
          andThen (readFile w (stagingPrefix f @ ''client-id.dat'')) (\<lambda>clientID.
          andThen (readFile w (stagingPrefix f @ ''client-secret.dat'')) (\<lambda>clientSecret.
          let tokenFileName = stagingPrefix f @ ''token.dat'';
              tokenSource1 = ReuseTokenSource None (Some tokenFileName)
          in case tokenCacheFile_Token w tokenFileName of
               Inr token \<Rightarrow> ok tokensource
             | Inl err \<Rightarrow>
                 andThen (emit (Log (ErrorGettingToken tokenFileName err))) (\<lambda>_.
                 andThen (emit (Log (GetAuthCodeFrom clientID))) (\<lambda>_.
                 andThen (emit (Print ''\<newline>Enter auth code: '')) (\<lambda>_.
                 let authCode = strings_TrimSpace w (stdin_line w) in
                 andThen (emit (ExchangeCall authCode)) (\<lambda>_.
                 case Exchange w authCode of
                   Inl err \<Rightarrow> fatalf (ErrorExchanging err)
                 | Inr token \<Rightarrow>
                     (case tokenCacheFile_WriteToken w tokenFileName token of
                        (Some err, evs) \<Rightarrow> andThen (Inr (), evs) (\<lambda>_. fatalf (ErrorWriting tokenFileName err))
                      | (None, evs) \<Rightarrow>
                          andThen (Inr (), evs) (\<lambda>_.
                          let tokenSource2 = ReuseTokenSource (Some token) None
                          in ok tokensource)))))))))"

subsection \<open>\<open>instanceDisk\<close>\<close>

definition imageURL :: string where
  "imageURL = ''https://www.googleapis.com/compute/v1/projects/coreos-cloud/global/images/coreos-stable-723-3-0-v20150804''"

definition diskName :: "flags \<Rightarrow> string" where
  "diskName f = instName f @ ''-coreos-stateless-pd''"

definition pdSSD :: "flags \<Rightarrow> string" where
  "pdSSD f = ''https://www.googleapis.com/compute/v1/projects/'' @ proj f @ ''/zones/'' @ zone f @ ''/diskTypes/pd-ssd''"

definition existingDisk :: "flags \<Rightarrow> Disk \<Rightarrow> AttachedDisk" where
  "existingDisk f disk =
     \<lparr> AutoDelete = False, Boot = True, DeviceName = diskName f, ad_Type = ''PERSISTENT'',
       Source = disk_SelfLink disk, Mode = ''READ_WRITE'', InitializeParams = None \<rparr>"

definition freshDisk :: "flags \<Rightarrow> AttachedDisk" where
  "freshDisk f =
     (let diskType = (if ssd f then pdSSD f else '''')
      in \<lparr> AutoDelete = \<not> reuseDisk f, Boot = True, DeviceName = '''', ad_Type = ''PERSISTENT'',
           Source = '''', Mode = '''',
           InitializeParams = Some \<lparr> DiskName = diskName f, SourceImage = imageURL,
                                     DiskSizeGb = 50, DiskType = diskType \<rparr> \<rparr>)"

text \<open>The \<open>for\<close> loop over \<open>dl.Items\<close>: the first disk of that name is returned from inside the loop.\<close>

fun scanDisks :: "flags \<Rightarrow> Disk list \<Rightarrow> AttachedDisk option" where
  "scanDisks f [] = None"
| "scanDisks f (disk # rest) =
     (if disk_Name disk \<noteq> diskName f then scanDisks f rest
      else Some (existingDisk f disk))"

definition instanceDisk :: "flags \<Rightarrow> world \<Rightarrow> AttachedDisk res" where
  "instanceDisk f w =
     (if reuseDisk f then
        andThen (emit (DisksListCall (proj f) (zone f))) (\<lambda>_.
        case Disks_List w (proj f) (zone f) of
          Inl err \<Rightarrow> fatalf (ErrorListingDisks err)
        | Inr dl \<Rightarrow>
            (case scanDisks f dl of
               Some d \<Rightarrow> ok d
             | None \<Rightarrow> ok (freshDisk f)))
      else ok (freshDisk f))"

subsection \<open>\<open>main\<close>: flags and the external address\<close>

definition applyStaging :: "flags \<Rightarrow> flags" where
  "applyStaging f =
     (if staging f then
        (let f1 = (if proj f = ''symbolic-datum-552'' then f\<lparr>proj := ''go-dashboard-dev''\<rparr> else f)
         in if coordinator f1 = ''https://storage.googleapis.com/go-builder-data/coordinator''
            then f1\<lparr>coordinator := ''https://storage.googleapis.com/dev-go-builder-data/coordinator''\<rparr>
            else f1)
      else f)"

text \<open>The \<open>switch *proj\<close> that fills an empty \<open>-static_ip\<close> for the two known projects.\<close>

definition hardCodedIP :: "flags \<Rightarrow> flags" where
  "hardCodedIP f =
     (if staticIP f = '''' then
        (if proj f = ''symbolic-datum-552'' then f\<lparr>staticIP := ''107.178.219.46''\<rparr>
         else if proj f = ''go-dashboard-dev'' then f\<lparr>staticIP := ''104.154.113.235''\<rparr>
         else f)
      else f)"

text \<open>
  The nested loops labelled \<open>IPLoop\<close>.  \<open>scanAddresses\<close> is the inner loop over one
  scoped list; \<open>IPLoop\<close> is the outer loop over \<open>aggAddrList.Items\<close>, given in the order
  the \<open>range\<close> visits them, and \<open>break IPLoop\<close> leaves both.
\<close>

fun scanAddresses :: "flags \<Rightarrow> Address list \<Rightarrow> string option" where
  "scanAddresses f [] = None"
| "scanAddresses f (addr # rest) =
     (if addr_Name addr = instName f @ ''-ip'' \<and> addr_Status addr = ''RESERVED''
      then Some (addr_Address addr)
      else scanAddresses f rest)"

fun IPLoop :: "flags \<Rightarrow> (string \<times> Address list) list \<Rightarrow> string \<Rightarrow> string" where
  "IPLoop f [] natIP = natIP"
| "IPLoop f ((scope, asl) # rest) natIP =
     (case scanAddresses f asl of
        Some a \<Rightarrow> a
      | None \<Rightarrow> IPLoop f rest natIP)"

definition resolveNatIP :: "flags \<Rightarrow> world \<Rightarrow> string res" where
  "resolveNatIP f w =
     (let natIP = staticIP f
      in if natIP = '''' then
           andThen (emit (AggregatedListCall (proj f))) (\<lambda>_.
           case Addresses_AggregatedList w (proj f) of
             Inl err \<Rightarrow> fatalf (AggregatedListFailed err)
           | Inr items \<Rightarrow> ok (IPLoop f items natIP))
         else ok natIP)"

subsection \<open>\<open>main\<close>: the startup configuration\<close>

definition baseConfig :: string where
  "baseConfig =
     ''#cloud-config\<newline>'' @
     ''coreos:\<newline>'' @
     ''  update:\<newline>'' @
     ''    group: stable\<newline>'' @
     ''    reboot-strategy: off\<newline>'' @
     ''  units:\<newline>'' @
     ''    - name: gobuild.service\<newline>'' @
     ''      command: start\<newline>'' @
     ''      content: |\<newline>'' @
     ''        [Unit]\<newline>'' @
     ''        Description=Go Builders\<newline>'' @
     ''        After=docker.service\<newline>'' @
     ''        Requires=docker.service\<newline>'' @
     ''        \<newline>'' @
     ''        [Service]\<newline>'' @
     ''        ExecStartPre=/bin/bash -c 'mkdir -p /opt/bin && curl -s -o /opt/bin/coordinator.tmp $COORDINATOR && install -m 0755 /opt/bin/coordinator{.tmp,}'\<newline>'' @
     ''        ExecStart=/opt/bin/coordinator\<newline>'' @
     ''        RestartSec=10s\<newline>'' @
     ''        Restart=always\<newline>'' @
     ''        StartLimitInterval=0\<newline>'' @
     ''        Type=simple\<newline>'' @
     ''        \<newline>'' @
     ''        [Install]\<newline>'' @
     ''        WantedBy=multi-user.target\<newline>''"

text \<open>\<open>strings.Replace(s, old, new, 1)\<close>: the leftmost occurrence of \<open>old\<close> is replaced.\<close>

fun Replace_first :: "string \<Rightarrow> string \<Rightarrow> string \<Rightarrow> string" where
  "Replace_first [] old new = (if old = [] then new else [])"
| "Replace_first (c # cs) old new =
     (if take (length old) (c # cs) = old then new @ drop (length old) (c # cs)
      else c # Replace_first cs old new)"

text \<open>\<open>fmt.Sprintf("\nssh_authorized_keys:\n    - %s\n", key)\<close>\<close>

definition sshStanza :: "string \<Rightarrow> string" where
  "sshStanza key = ''\<newline>ssh_authorized_keys:\<newline>    - '' @ key @ ''\<newline>''"

definition bradfitzKey :: string where
  "bradfitzKey = ''ssh-rsa AAAAB3NzaC1yc2EAAAABIwAAAIEAwks9dwWKlRC+73gRbvYtVg0vdCwDSuIlyt4z6xa/YU/jTDynM4R4W10hm2tPjy8iR1k8XhDv4/qdxe6m07NjG/By1tkmGpm1mGwho4Pr5kbAAy/Qg+NLCSdAYnnE00FQEcFOC15GFVMOW2AzDGKisReohwH9eIzHPzdYQNPRWXE= bradfitz@papag.bradfitz.com''"

definition renderCloudConfig :: "flags \<Rightarrow> world \<Rightarrow> string res" where
  "renderCloudConfig f w =
     (let cloudConfig0 = Replace_first baseConfig ''$COORDINATOR'' (coordinator f) in
      andThen (if sshPub f \<noteq> '''' then
                 andThen (readFile w (sshPub f)) (\<lambda>slurp.
                 let key = strings_TrimSpace w slurp
                 in ok (cloudConfig0 @ sshStanza key))
               else ok cloudConfig0) (\<lambda>cloudConfig1.
      if Getenv w ''USER'' = ''bradfitz'' then ok (cloudConfig1 @ sshStanza bradfitzKey)
      else ok cloudConfig1))"

definition maxCloudConfig :: nat where
  "maxCloudConfig = 32 * 2 ^ 10"

definition checkCloudConfig :: "string \<Rightarrow> unit res" where
  "checkCloudConfig cloudConfig =
     (if length cloudConfig > maxCloudConfig
      then fatalf (ConfigTooLarge (length cloudConfig) maxCloudConfig)
      else ok ())"

subsection \<open>\<open>main\<close>: the instance description\<close>

definition apiPrefix :: "flags \<Rightarrow> string" where
  "apiPrefix f = ''https://www.googleapis.com/compute/v1/projects/'' @ proj f"

definition machType :: "flags \<Rightarrow> string" where
  "machType f = apiPrefix f @ ''/zones/'' @ zone f @ ''/machineTypes/'' @ mach f"

definition instanceLiteral :: "flags \<Rightarrow> world \<Rightarrow> string \<Rightarrow> string \<Rightarrow> Instance res" where
  "instanceLiteral f w natIP cloudConfig =
     andThen (instanceDisk f w) (\<lambda>disk.
     ok \<lparr> inst_Name = instName f,
          Description = ''Go Builder'',
          MachineType = machType f,
          Disks = [disk],
          Tags = [''http-server'', ''https-server'', ''allow-ssh''],
          Metadata = [(''user-data'', cloudConfig)],
          NetworkInterfaces =
            [\<lparr> AccessConfigs = [\<lparr> ac_Type = ''ONE_TO_ONE_NAT'', ac_Name = ''External NAT'', NatIP = natIP \<rparr>],
               Network = apiPrefix f @ ''/global/networks/default'' \<rparr>],
          ServiceAccounts =
            [\<lparr> Email = ''default'',
               Scopes = [DevstorageFullControlScope, ComputeScope, CloudPlatformScope] \<rparr>] \<rparr>)"

text \<open>
  Lines 129 to 180 of \<open>main\<close>: the configuration is rendered and measured, then the
  instance literal is built (which calls \<open>instanceDisk\<close>).
\<close>

definition buildInstance :: "flags \<Rightarrow> world \<Rightarrow> string \<Rightarrow> Instance res" where
  "buildInstance f w natIP =
     andThen (renderCloudConfig f w) (\<lambda>cloudConfig.
     andThen (checkCloudConfig cloudConfig) (\<lambda>_.
     instanceLiteral f w natIP cloudConfig))"

subsection \<open>\<open>main\<close>: submitting and polling\<close>

definition submit :: "flags \<Rightarrow> world \<Rightarrow> Instance \<Rightarrow> string res" where
  "submit f w instance =
     andThen (emit (Log CreatingInstance)) (\<lambda>_.
     andThen (emit (InsertCall (proj f) (zone f) instance)) (\<lambda>_.
     case Instances_Insert w (proj f) (zone f) instance of
       Inl err \<Rightarrow> fatalf (FailedToCreateInstance err)
     | Inr op \<Rightarrow>
         (let opName = op_Name op
          in andThen (emit (Log (CreatedWaiting opName))) (\<lambda>_. ok opName))))"

text \<open>
  The loop labelled \<open>OpLoop\<close> has no bound: it ends only by \<open>break OpLoop\<close> or by a fatal
  exit.  \<open>OpLoop f w opName n tr\<close> is the loop entered with \<open>n\<close> polls already made
  and trace \<open>tr\<close>; a loop that never ends is the value \<open>None\<close>.
\<close>

partial_function (option) OpLoop ::
  "flags \<Rightarrow> world \<Rightarrow> string \<Rightarrow> nat \<Rightarrow> event list \<Rightarrow> ((fatal + unit) \<times> event list) option"
where
  "OpLoop f w opName n tr =
     (let tr1 = tr @ [Sleep 2, OperationsGetCall (proj f) (zone f) opName]
      in case ZoneOperations_Get w n (proj f) (zone f) opName of
           Inl err \<Rightarrow> Some (Inl (FailedToGetOp opName err), tr1)
         | Inr op \<Rightarrow>
             if op_Status op = ''PENDING'' \<or> op_Status op = ''RUNNING'' then
               OpLoop f w opName (Suc n) (tr1 @ [Log (WaitingOnOperation opName)])
             else if op_Status op = ''DONE'' then
               (case op_Error op of
                  Some errors \<Rightarrow> Some (Inl FailedToStart, tr1 @ map (\<lambda>operr. Log (OpError operr)) errors)
                | None \<Rightarrow> Some (Inr (), tr1 @ [Log (Success op)]))
             else Some (Inl (UnknownStatus (op_Status op) op), tr1))"

definition fetchInstance :: "flags \<Rightarrow> world \<Rightarrow> unit res" where
  "fetchInstance f w =
     andThen (emit (InstancesGetCall (proj f) (zone f) (instName f))) (\<lambda>_.
     case Instances_Get w (proj f) (zone f) (instName f) of
       Inl err \<Rightarrow> fatalf (ErrorGettingInstance err)
     | Inr inst \<Rightarrow> emit (Log (InstanceJSON inst)))"

text \<open>Everything \<open>main\<close> does up to and including the create request.\<close>

definition prepare :: "flags \<Rightarrow> world \<Rightarrow> (flags \<times> string) res" where
  "prepare f0 w =
     (let f1 = applyStaging f0 in
      if proj f1 = '''' then fatalf MissingProjectFlag
      else
        (let f = hardCodedIP f1 in
         andThen (tokenSource f w) (\<lambda>ts.
         andThen (resolveNatIP f w) (\<lambda>natIP.
         andThen (buildInstance f w natIP) (\<lambda>instance.
         andThen (submit f w instance) (\<lambda>opName. ok (f, opName)))))))"

definition main :: "flags \<Rightarrow> world \<Rightarrow> ((fatal + unit) \<times> event list) option" where
  "main f0 w =
     (case prepare f0 w of
        (Inl e, tr) \<Rightarrow> Some (Inl e, tr)
      | (Inr (f, opName), tr) \<Rightarrow>
          (case OpLoop f w opName 0 tr of
             None \<Rightarrow> None
           | Some (Inl e, tr') \<Rightarrow> Some (Inl e, tr')
           | Some (Inr u, tr') \<Rightarrow> Some (andThen (Inr (), tr') (\<lambda>_. fetchInstance f w))))"

subsection \<open>Observations on traces and poll responses\<close>

definition isInsertCall :: "event \<Rightarrow> bool" where
  "isInsertCall ev = (case ev of InsertCall p z i \<Rightarrow> True | _ \<Rightarrow> False)"

definition isInstancesGetCall :: "event \<Rightarrow> bool" where
  "isInstancesGetCall ev = (case ev of InstancesGetCall p z n \<Rightarrow> True | _ \<Rightarrow> False)"

definition isOperationsGetCall :: "event \<Rightarrow> bool" where
  "isOperationsGetCall ev = (case ev of OperationsGetCall p z n \<Rightarrow> True | _ \<Rightarrow> False)"

definition local_event :: "event \<Rightarrow> bool" where
  "local_event ev = (\<not> isInsertCall ev \<and> \<not> isInstancesGetCall ev \<and> \<not> isOperationsGetCall ev)"

definition traceAll :: "(event \<Rightarrow> bool) \<Rightarrow> 'a res \<Rightarrow> bool" where
  "traceAll P m = list_all P (snd m)"

definition noFetchNoPoll :: "event \<Rightarrow> bool" where
  "noFetchNoPoll ev = (\<not> isInstancesGetCall ev \<and> \<not> isOperationsGetCall ev)"

text \<open>The \<open>k\<close>-th poll is answered, and with one of the two statuses on which the loop continues.\<close>

definition stillRunning :: "flags \<Rightarrow> world \<Rightarrow> string \<Rightarrow> nat \<Rightarrow> bool" where
  "stillRunning f w opName k =
     (case ZoneOperations_Get w k (proj f) (zone f) opName of
        Inl err \<Rightarrow> False
      | Inr op \<Rightarrow> op_Status op = ''PENDING'' \<or> op_Status op = ''RUNNING'')"

text \<open>What \<open>m\<close> rounds of the loop that all continue add to the trace.\<close>

definition waiting :: "flags \<Rightarrow> string \<Rightarrow> nat \<Rightarrow> event list" where
  "waiting f opName m =
     concat (replicate m [Sleep 2, OperationsGetCall (proj f) (zone f) opName,
                          Log (WaitingOnOperation opName)])"

definition scopesOf :: "Instance res \<Rightarrow> string list" where
  "scopesOf r = (case fst r of Inl e \<Rightarrow> [] | Inr inst \<Rightarrow> concat (map Scopes (ServiceAccounts inst)))"

definition outcome :: "('a \<times> event list) option \<Rightarrow> 'a option" where
  "outcome r = map_option fst r"

definition configHead :: string where
  "configHead = take 377 baseConfig"

definition configTail :: string where
  "configTail = drop 389 baseConfig"

subsection \<open>The address resolution order as the specification words it\<close>

definition reservedFor :: "string \<Rightarrow> Address \<Rightarrow> bool" where
  "reservedFor instanceName a = (addr_Name a = instanceName @ ''-ip'' \<and> addr_Status a = ''RESERVED'')"

definition spec_resolve :: "string \<Rightarrow> string \<Rightarrow> Address list \<Rightarrow> string" where
  "spec_resolve explicitIP instanceName addrs =
     (if explicitIP \<noteq> '''' then explicitIP
      else case find (reservedFor instanceName) addrs of
             Some a \<Rightarrow> addr_Address a
           | None \<Rightarrow> '''')"

subsection \<open>Example worlds\<close>

text \<open>
  A world in which the default credential is found, no file exists, the project has no
  reserved address and no disk, and the operation is running for two polls and then
  done without error.  The other examples change single answers of it.
\<close>

definition isSpaceASCII :: "char \<Rightarrow> bool" where
  "isSpaceASCII c = (c \<in> set [CHR 0x09, CHR 0x0A, CHR 0x0B, CHR 0x0C, CHR 0x0D, CHR 0x20])"

definition TrimSpace_ascii :: "string \<Rightarrow> string" where
  "TrimSpace_ascii s = rev (dropWhile isSpaceASCII (rev (dropWhile isSpaceASCII s)))"

definition exampleInstance :: Instance where
  "exampleInstance =
     \<lparr> inst_Name = ''farmer'', Description = ''Go Builder'', MachineType = '''', Disks = [],
       Tags = [], Metadata = [], NetworkInterfaces = [], ServiceAccounts = [] \<rparr>"

definition exampleWorld :: world where
  "exampleWorld =
     \<lparr> Getenv = (\<lambda>name. ''''),
       ReadFile = (\<lambda>name. Inl ''no such file or directory''),
       WriteFile = (\<lambda>name data. None),
       strings_TrimSpace = TrimSpace_ascii,
       json_Marshal = (\<lambda>t. Inr (''access_token='' @ AccessToken t)),
       json_Unmarshal = (\<lambda>s. Inl ''unexpected end of JSON input''),
       DefaultTokenSource = Inr DefaultSource,
       stdin_line = '''',
       Exchange = (\<lambda>code. Inl ''invalid_grant''),
       Addresses_AggregatedList = (\<lambda>p. Inr []),
       Disks_List = (\<lambda>p z. Inr []),
       Instances_Insert = (\<lambda>p z i. Inr \<lparr> op_Name = ''operation-1'', op_Status = ''PENDING'', op_Error = None \<rparr>),
       ZoneOperations_Get = (\<lambda>n p z name.
          Inr \<lparr> op_Name = name, op_Status = (if n < 2 then ''RUNNING'' else ''DONE''), op_Error = None \<rparr>),
       Instances_Get = (\<lambda>p z n. Inr exampleInstance) \<rparr>"

text \<open>
  No default credential and no cached token; the two client files exist, the code
  typed at the prompt is exchanged for a token and the cache file is written.
\<close>

definition exchangedToken :: Token where
  "exchangedToken = \<lparr> AccessToken = ''ya29.token'', TokenType = ''Bearer'', RefreshToken = ''1/refresh'', Expiry = 0 \<rparr>"

definition interactiveWorld :: world where
  "interactiveWorld =
     exampleWorld
       \<lparr> DefaultTokenSource := Inl ''could not find default credentials'',
         ReadFile := (\<lambda>name. if name = ''client-id.dat'' then Inr ''id-1 ''
                              else if name = ''client-secret.dat'' then Inr ''secret-1''
                              else Inl ''no such file or directory''),
         stdin_line := '' 4/code'',
         Exchange := (\<lambda>code. if code = ''4/code'' then Inr exchangedToken else Inl ''invalid_grant'') \<rparr>"

text \<open>The project \<open>symbolic-datum-552\<close> has a reserved address named \<open>farmer-ip\<close>.\<close>

definition farmerAddress :: Address where
  "farmerAddress = \<lparr> addr_Name = ''farmer-ip'', addr_Status = ''RESERVED'', addr_Address = ''203.0.113.9'' \<rparr>"

definition reservedWorld :: world where
  "reservedWorld =
     exampleWorld \<lparr> Addresses_AggregatedList := (\<lambda>p. Inr [(''regions/us-central1'', [farmerAddress])]) \<rparr>"

text \<open>The first poll answers \<open>DONE\<close> with an error object whose list is empty.\<close>

definition doneEmptyErrorWorld :: world where
  "doneEmptyErrorWorld =
     exampleWorld \<lparr> ZoneOperations_Get := (\<lambda>n p z name.
        Inr \<lparr> op_Name = name, op_Status = ''DONE'', op_Error = Some [] \<rparr>) \<rparr>"

text \<open>The operation ends without error, and the fetch of the instance then fails.\<close>

definition fetchFailsWorld :: world where
  "fetchFailsWorld = exampleWorld \<lparr> Instances_Get := (\<lambda>p z n. Inl ''googleapi: Error 404'') \<rparr>"

text \<open>After one \<open>RUNNING\<close> the operation is \<open>DONE\<close> with two errors.\<close>

definition quotaError :: OperationErrorErrors where
  "quotaError = \<lparr> Code = ''QUOTA_EXCEEDED'', Location = '''', Message = ''Quota exceeded'' \<rparr>"

definition zoneError :: OperationErrorErrors where
  "zoneError = \<lparr> Code = ''ZONE_RESOURCE_POOL_EXHAUSTED'', Location = '''', Message = ''No capacity'' \<rparr>"

definition doneErrorsWorld :: world where
  "doneErrorsWorld =
     exampleWorld \<lparr> ZoneOperations_Get := (\<lambda>n p z name.
        if n < 1 then Inr \<lparr> op_Name = name, op_Status = ''RUNNING'', op_Error = None \<rparr>
        else Inr \<lparr> op_Name = name, op_Status = ''DONE'', op_Error = Some [quotaError, zoneError] \<rparr>) \<rparr>"

text \<open>Every poll answers \<open>PENDING\<close>.\<close>

definition pendingWorld :: world where
  "pendingWorld =
     exampleWorld \<lparr> ZoneOperations_Get := (\<lambda>n p z name.
        Inr \<lparr> op_Name = name, op_Status = ''PENDING'', op_Error = None \<rparr>) \<rparr>"

text \<open>After three polls the provider answers with a status the command does not know.\<close>

definition driftWorld :: world where
  "driftWorld =
     exampleWorld \<lparr> ZoneOperations_Get := (\<lambda>n p z name.
        Inr \<lparr> op_Name = name, op_Status = (if n < 3 then ''PENDING'' else ''ABORTING''), op_Error = None \<rparr>) \<rparr>"

text \<open>A disk of the instance's name exists in the zone, after one of another name.\<close>

definition otherDisk :: Disk where
  "otherDisk = \<lparr> disk_Name = ''scratch'', disk_SelfLink = ''https://www.googleapis.com/compute/v1/projects/symbolic-datum-552/zones/us-central1-f/disks/scratch'' \<rparr>"

definition farmerDisk :: Disk where
  "farmerDisk = \<lparr> disk_Name = ''farmer-coreos-stateless-pd'', disk_SelfLink = ''https://www.googleapis.com/compute/v1/projects/symbolic-datum-552/zones/us-central1-f/disks/farmer-coreos-stateless-pd'' \<rparr>"

definition diskWorld :: world where
  "diskWorld = exampleWorld \<lparr> Disks_List := (\<lambda>p z. Inr [otherDisk, farmerDisk]) \<rparr>"

definition bradfitzWorld :: world where
  "bradfitzWorld = exampleWorld \<lparr> Getenv := (\<lambda>name. if name = ''USER'' then ''bradfitz'' else '''') \<rparr>"

text \<open>The default flags after \<open>main\<close> has adjusted them.\<close>

definition resolvedFlags :: flags where
  "resolvedFlags = defaultFlags\<lparr>staticIP := ''107.178.219.46''\<rparr>"

text \<open>A coordinator URL of 33000 bytes.\<close>

definition longFlags :: flags where
  "longFlags = defaultFlags \<lparr> coordinator := replicate 33000 (CHR ''a'') \<rparr>"

section \<open>Properties\<close>

subsection \<open>Sequencing and traces\<close>

lemma andThen_ok: "andThen (ok v) k = k v"
  by (simp add: andThen_def ok_def split: prod.splits)

lemma andThen_fatalf: "andThen (fatalf e) k = fatalf e"
  by (simp add: andThen_def fatalf_def)

lemma andThen_emit: "andThen (emit ev) k = (fst (k ()), ev # snd (k ()))"
  by (simp add: andThen_def emit_def split: prod.splits)

lemma andThen_Inl: "andThen (Inl e, t) k = (Inl e, t)"
  by (simp add: andThen_def)

lemma andThen_Inr: "andThen (Inr v, t) k = (fst (k v), t @ snd (k v))"
  by (simp add: andThen_def split: prod.splits)

lemma snd_andThen:
  "snd (andThen m k) = (case fst m of Inl e \<Rightarrow> snd m | Inr v \<Rightarrow> snd m @ snd (k v))"
  by (cases m; cases "fst m") (auto simp: andThen_def split: prod.splits)

lemma fst_andThen:
  "fst (andThen m k) = (case fst m of Inl e \<Rightarrow> Inl e | Inr v \<Rightarrow> fst (k v))"
  by (cases m; cases "fst m") (auto simp: andThen_def split: prod.splits)

lemma traceAll_ok: "traceAll P (ok v)"
  by (simp add: traceAll_def ok_def)

lemma traceAll_fatalf: "traceAll P (fatalf e)"
  by (simp add: traceAll_def fatalf_def)

lemma traceAll_emit: "P ev \<Longrightarrow> traceAll P (emit ev)"
  by (simp add: traceAll_def emit_def)

lemma traceAll_andThen: "traceAll P m \<Longrightarrow> (\<And>v. traceAll P (k v)) \<Longrightarrow> traceAll P (andThen m k)"
  by (simp add: traceAll_def snd_andThen split: sum.splits)

lemma traceAll_case_sum:
  "(\<And>a. traceAll P (g a)) \<Longrightarrow> (\<And>b. traceAll P (h b)) \<Longrightarrow>
   traceAll P (case s of Inl a \<Rightarrow> g a | Inr b \<Rightarrow> h b)"
  by (cases s) simp_all

lemma traceAll_case_option:
  "traceAll P g \<Longrightarrow> (\<And>b. traceAll P (h b)) \<Longrightarrow> traceAll P (case s of None \<Rightarrow> g | Some b \<Rightarrow> h b)"
  by (cases s) simp_all

lemma traceAll_if: "traceAll P g \<Longrightarrow> traceAll P h \<Longrightarrow> traceAll P (if c then g else h)"
  by simp

lemma traceAll_mono: "traceAll P m \<Longrightarrow> (\<And>ev. P ev \<Longrightarrow> Q ev) \<Longrightarrow> traceAll Q m"
  unfolding traceAll_def list_all_iff by blast

lemma local_event_simps:
  "local_event (Log m)" "local_event (Print s)" "local_event (ExchangeCall c)"
  "local_event (WriteFileCall n d)" "local_event (AggregatedListCall p)"
  "local_event (DisksListCall p z)" "local_event (Sleep k)"
  by (simp_all add: local_event_def isInsertCall_def isInstancesGetCall_def isOperationsGetCall_def)

lemma local_readFile: "traceAll local_event (readFile w v)"
  by (simp add: readFile_def traceAll_ok traceAll_fatalf split: sum.splits)

lemma local_WriteToken:
  "list_all local_event (snd (tokenCacheFile_WriteToken w n t))"
  by (simp add: tokenCacheFile_WriteToken_def local_event_simps split: sum.splits)

lemma local_tokenSource: "traceAll local_event (tokenSource f w)"
proof -
  have wt: "traceAll local_event (case tokenCacheFile_WriteToken w n t of
                (Some err, evs) \<Rightarrow> andThen (Inr (), evs) (\<lambda>_. fatalf (ErrorWriting n err))
              | (None, evs) \<Rightarrow> andThen (Inr (), evs) (\<lambda>_. ok r))" for n t and r :: "TokenSource option"
    using local_WriteToken [of w n t]
    by (auto simp: traceAll_def andThen_def ok_def fatalf_def split: prod.splits option.splits)
  show ?thesis
    unfolding tokenSource_def Let_def
    by (intro traceAll_case_sum traceAll_andThen local_readFile traceAll_ok traceAll_fatalf
          traceAll_emit local_event_simps wt)
qed

lemma local_resolveNatIP: "traceAll local_event (resolveNatIP f w)"
  unfolding resolveNatIP_def Let_def
  by (intro traceAll_if traceAll_case_sum traceAll_andThen traceAll_ok traceAll_fatalf
        traceAll_emit local_event_simps)

lemma renderCloudConfig_trace: "snd (renderCloudConfig f w) = []"
  unfolding renderCloudConfig_def Let_def readFile_def
  by (auto simp: andThen_def ok_def fatalf_def split: sum.splits prod.splits)

lemma checkCloudConfig_trace: "snd (checkCloudConfig c) = []"
  by (simp add: checkCloudConfig_def ok_def fatalf_def)

lemma local_instanceDisk: "traceAll local_event (instanceDisk f w)"
  unfolding instanceDisk_def
  by (intro traceAll_if traceAll_case_sum traceAll_case_option traceAll_andThen traceAll_ok
        traceAll_fatalf traceAll_emit local_event_simps)

lemma local_buildInstance: "traceAll local_event (buildInstance f w natIP)"
  unfolding buildInstance_def instanceLiteral_def
  by (intro traceAll_andThen traceAll_ok local_instanceDisk)
     (simp_all add: traceAll_def renderCloudConfig_trace checkCloudConfig_trace)

subsection \<open>Substituting the coordinator URL\<close>

lemma Replace_first_fresh:
  "old \<noteq> [] \<Longrightarrow> hd old \<notin> set p \<Longrightarrow> Replace_first (p @ old @ s) old new = p @ new @ s"
proof (induction p)
  case Nil
  then show ?case by (cases old) auto
next
  case (Cons c p)
  then have "c \<noteq> hd old" by auto
  with Cons.prems(1) have "take (length old) ((c # p) @ old @ s) \<noteq> old"
    by (cases old) auto
  with Cons show ?case by simp
qed

lemma baseConfig_split: "baseConfig = configHead @ ''$COORDINATOR'' @ configTail"
  by (simp add: baseConfig_def configHead_def configTail_def)

lemma dollar_fresh: "CHR ''$'' \<notin> set configHead"
  by (simp add: baseConfig_def configHead_def)

lemma render_base:
  "Replace_first baseConfig ''$COORDINATOR'' c = configHead @ c @ configTail"
  unfolding baseConfig_split using dollar_fresh by (intro Replace_first_fresh) simp_all

subsection \<open>The poll loop\<close>

lemma OpLoop_continue:
  "stillRunning f w opName n \<Longrightarrow>
   OpLoop f w opName n tr =
     OpLoop f w opName (Suc n)
       (tr @ [Sleep 2, OperationsGetCall (proj f) (zone f) opName, Log (WaitingOnOperation opName)])"
  by (subst OpLoop.simps) (simp add: stillRunning_def split: sum.splits)

lemma waiting_Suc:
  "waiting f opName (Suc m) =
     [Sleep 2, OperationsGetCall (proj f) (zone f) opName, Log (WaitingOnOperation opName)] @ waiting f opName m"
  by (simp add: waiting_def)

lemma OpLoop_waiting:
  "(\<forall>k<m. stillRunning f w opName (n + k)) \<Longrightarrow>
   OpLoop f w opName n tr = OpLoop f w opName (n + m) (tr @ waiting f opName m)"
proof (induction m arbitrary: n tr)
  case 0
  then show ?case by (simp add: waiting_def)
next
  case (Suc m)
  from Suc.prems have first: "stillRunning f w opName n"
    by (metis add.right_neutral zero_less_Suc)
  have rest: "\<forall>k<m. stillRunning f w opName (Suc n + k)"
  proof (intro allI impI)
    fix k assume "k < m"
    then have "Suc k < Suc m" by simp
    with Suc.prems have "stillRunning f w opName (n + Suc k)" by blast
    then show "stillRunning f w opName (Suc n + k)" by simp
  qed
  let ?round = "[Sleep 2, OperationsGetCall (proj f) (zone f) opName, Log (WaitingOnOperation opName)]"
  have "OpLoop f w opName n tr = OpLoop f w opName (Suc n) (tr @ ?round)"
    using first by (rule OpLoop_continue)
  also have "\<dots> = OpLoop f w opName (Suc n + m) ((tr @ ?round) @ waiting f opName m)"
    using rest by (rule Suc.IH)
  finally show ?case by (simp add: waiting_Suc)
qed

lemma OpLoop_get_fails:
  "ZoneOperations_Get w n (proj f) (zone f) opName = Inl err \<Longrightarrow>
   OpLoop f w opName n tr =
     Some (Inl (FailedToGetOp opName err), tr @ [Sleep 2, OperationsGetCall (proj f) (zone f) opName])"
  by (subst OpLoop.simps) simp

lemma OpLoop_done_error:
  "ZoneOperations_Get w n (proj f) (zone f) opName = Inr op \<Longrightarrow> op_Status op = ''DONE'' \<Longrightarrow>
   op_Error op = Some errors \<Longrightarrow>
   OpLoop f w opName n tr =
     Some (Inl FailedToStart,
           tr @ [Sleep 2, OperationsGetCall (proj f) (zone f) opName] @ map (\<lambda>operr. Log (OpError operr)) errors)"
  by (subst OpLoop.simps) simp

lemma OpLoop_done_success:
  "ZoneOperations_Get w n (proj f) (zone f) opName = Inr op \<Longrightarrow> op_Status op = ''DONE'' \<Longrightarrow>
   op_Error op = None \<Longrightarrow>
   OpLoop f w opName n tr =
     Some (Inr (), tr @ [Sleep 2, OperationsGetCall (proj f) (zone f) opName, Log (Success op)])"
  by (subst OpLoop.simps) simp

lemma OpLoop_unknown:
  "ZoneOperations_Get w n (proj f) (zone f) opName = Inr op \<Longrightarrow>
   op_Status op \<noteq> ''PENDING'' \<Longrightarrow> op_Status op \<noteq> ''RUNNING'' \<Longrightarrow> op_Status op \<noteq> ''DONE'' \<Longrightarrow>
   OpLoop f w opName n tr =
     Some (Inl (UnknownStatus (op_Status op) op), tr @ [Sleep 2, OperationsGetCall (proj f) (zone f) opName])"
  by (subst OpLoop.simps) simp

lemma OpLoop_exit_needs_stop:
  "OpLoop f w opName n tr = Some y \<Longrightarrow> \<exists>k\<ge>n. \<not> stillRunning f w opName k"
proof (induction rule: OpLoop.raw_induct[rotated 1, consumes 1])
  case (1 loop f w opName n tr y)
  show ?case
  proof (cases "stillRunning f w opName n")
    case True
    with 1(2) have "loop f w opName (Suc n) (tr @ [Sleep 2, OperationsGetCall (proj f) (zone f) opName] @ [Log (WaitingOnOperation opName)]) = Some y"
      by (auto simp: stillRunning_def split: sum.splits)
    from 1(1)[OF this] obtain k where "k \<ge> Suc n" "\<not> stillRunning f w opName k" by blast
    then show ?thesis by (intro exI[of _ k]) simp
  next
    case False
    then show ?thesis by blast
  qed
qed

lemma OpLoop_never:
  "(\<forall>k. stillRunning f w opName k) \<Longrightarrow> OpLoop f w opName n tr = None"
  using OpLoop_exit_needs_stop [of f w opName n tr] by (cases "OpLoop f w opName n tr") auto

lemma count_waiting: "length (filter isOperationsGetCall (waiting f opName m)) = m"
  by (induction m) (simp_all add: waiting_def isOperationsGetCall_def)

subsection \<open>Runs of \<open>main\<close>\<close>

lemma length_configHead: "length configHead = 377"
  by (simp add: configHead_def baseConfig_def)

lemma length_configTail: "length configTail = 245"
  by (simp add: configTail_def baseConfig_def)

lemmas run_defs =
  prepare_def applyStaging_def hardCodedIP_def defaultFlags_def exampleWorld_def
  tokenSource_def resolveNatIP_def buildInstance_def renderCloudConfig_def render_base
  checkCloudConfig_def maxCloudConfig_def length_configHead length_configTail instanceLiteral_def
  instanceDisk_def submit_def andThen_ok andThen_emit andThen_fatalf fst_andThen
  resolvedFlags_def ok_def Let_def

lemma prepare_example:
  "fst (prepare defaultFlags exampleWorld) = Inr (resolvedFlags, ''operation-1'')"
  by (simp add: run_defs)

lemma prepare_drift:
  "fst (prepare defaultFlags driftWorld) = Inr (resolvedFlags, ''operation-1'')"
  by (simp add: run_defs driftWorld_def)

lemma noFetchNoPoll_local: "local_event ev \<Longrightarrow> noFetchNoPoll ev"
  by (simp add: local_event_def noFetchNoPoll_def)

lemma noFetchNoPoll_simps: "noFetchNoPoll (Log m)" "noFetchNoPoll (InsertCall p z i)"
  by (simp_all add: noFetchNoPoll_def isInstancesGetCall_def isOperationsGetCall_def)

lemma submit_trace: "traceAll noFetchNoPoll (submit f w i)"
  unfolding submit_def Let_def
  by (intro traceAll_case_sum traceAll_andThen traceAll_ok traceAll_fatalf traceAll_emit
        noFetchNoPoll_simps)

lemma prepare_trace: "traceAll noFetchNoPoll (prepare f0 w)"
  unfolding prepare_def Let_def
  by (intro traceAll_if traceAll_andThen traceAll_ok traceAll_fatalf submit_trace
        traceAll_mono [OF local_tokenSource] traceAll_mono [OF local_resolveNatIP]
        traceAll_mono [OF local_buildInstance] noFetchNoPoll_local)

lemma main_after_prepare:
  "prepare f0 w = (Inr (f, opName), tr0) \<Longrightarrow>
   main f0 w =
     (case OpLoop f w opName 0 tr0 of
        None \<Rightarrow> None
      | Some (Inl e, tr') \<Rightarrow> Some (Inl e, tr')
      | Some (Inr u, tr') \<Rightarrow> Some (andThen (Inr (), tr') (\<lambda>_. fetchInstance f w)))"
  by (simp add: main_def)

lemma fetchInstance_eq:
  "andThen (Inr (), tr) (\<lambda>_. fetchInstance f w) =
     (case Instances_Get w (proj f) (zone f) (instName f) of
        Inl err \<Rightarrow> (Inl (ErrorGettingInstance err), tr @ [InstancesGetCall (proj f) (zone f) (instName f)])
      | Inr inst \<Rightarrow> (Inr (), tr @ [InstancesGetCall (proj f) (zone f) (instName f), Log (InstanceJSON inst)]))"
  by (simp add: fetchInstance_def andThen_def emit_def fatalf_def split: sum.splits)

lemma no_fetch_waiting: "filter isInstancesGetCall (waiting f opName m) = []"
  by (induction m) (simp_all add: waiting_def isInstancesGetCall_def)

subsection \<open>Termination of the poll loop\<close>

text \<open>
  Claim C6.  If the first \<open>m\<close> poll responses (for any \<open>m\<close>, zero included) are
  \<open>PENDING\<close> or \<open>RUNNING\<close> and the next one is \<open>DONE\<close>, the poll loop returns, and
  it has then made exactly \<open>m + 1\<close> polls: it ends on the \<open>DONE\<close> response and not
  before.  If every response is \<open>PENDING\<close> or \<open>RUNNING\<close>, the loop never returns.
\<close>

theorem OpLoop_ends_at_DONE:
  "((\<forall>k<m. stillRunning f w opName k) \<and>
    ZoneOperations_Get w m (proj f) (zone f) opName = Inr op \<and> op_Status op = ''DONE''
    \<longrightarrow> (let final = (case op_Error op of
                        Some errors \<Rightarrow> (Inl FailedToStart, map (\<lambda>operr. Log (OpError operr)) errors)
                      | None \<Rightarrow> (Inr (), [Log (Success op)]));
             evs = waiting f opName m @ [Sleep 2, OperationsGetCall (proj f) (zone f) opName] @ snd final
         in OpLoop f w opName 0 tr = Some (fst final, tr @ evs) \<and>
            length (filter isOperationsGetCall evs) = Suc m))
   \<and> ((\<forall>k. stillRunning f w opName k) \<longrightarrow> OpLoop f w opName 0 tr = None)"
proof (intro conjI impI)
  assume h: "(\<forall>k<m. stillRunning f w opName k) \<and>
    ZoneOperations_Get w m (proj f) (zone f) opName = Inr op \<and> op_Status op = ''DONE''"
  then have "\<forall>k<m. stillRunning f w opName (0 + k)" by simp
  then have step: "OpLoop f w opName 0 tr = OpLoop f w opName m (tr @ waiting f opName m)"
    using OpLoop_waiting [of m f w opName 0 tr] by simp
  have cnt: "filter isOperationsGetCall (map (\<lambda>operr. Log (OpError operr)) errors) = []" for errors
    by (induction errors) (simp_all add: isOperationsGetCall_def)
  show "let final = (case op_Error op of
                        Some errors \<Rightarrow> (Inl FailedToStart, map (\<lambda>operr. Log (OpError operr)) errors)
                      | None \<Rightarrow> (Inr (), [Log (Success op)]));
             evs = waiting f opName m @ [Sleep 2, OperationsGetCall (proj f) (zone f) opName] @ snd final
         in OpLoop f w opName 0 tr = Some (fst final, tr @ evs) \<and>
            length (filter isOperationsGetCall evs) = Suc m"
  proof (cases "op_Error op")
    case None
    with h step show ?thesis
      by (simp add: OpLoop_done_success count_waiting isOperationsGetCall_def)
  next
    case (Some errors)
    with h step show ?thesis
      by (simp add: OpLoop_done_error count_waiting cnt isOperationsGetCall_def)
  qed
next
  assume "\<forall>k. stillRunning f w opName k"
  then show "OpLoop f w opName 0 tr = None" by (rule OpLoop_never)
qed

theorem OpLoop_ends_at_DONE_witness:
  "OpLoop resolvedFlags exampleWorld ''operation-1'' 0 [] =
     Some (Inr (),
       [Sleep 2, OperationsGetCall ''symbolic-datum-552'' ''us-central1-f'' ''operation-1'',
        Log (WaitingOnOperation ''operation-1''),
        Sleep 2, OperationsGetCall ''symbolic-datum-552'' ''us-central1-f'' ''operation-1'',
        Log (WaitingOnOperation ''operation-1''),
        Sleep 2, OperationsGetCall ''symbolic-datum-552'' ''us-central1-f'' ''operation-1'',
        Log (Success \<lparr>op_Name = ''operation-1'', op_Status = ''DONE'', op_Error = None\<rparr>)])
   \<and> OpLoop resolvedFlags pendingWorld ''operation-1'' 0 [] = None"
proof -
  let ?done = "\<lparr>op_Name = ''operation-1'', op_Status = ''DONE'', op_Error = None\<rparr>"
  have run: "\<forall>k<2. stillRunning resolvedFlags exampleWorld ''operation-1'' k"
    by (simp add: stillRunning_def exampleWorld_def)
  have resp: "ZoneOperations_Get exampleWorld 2 (proj resolvedFlags) (zone resolvedFlags) ''operation-1'' = Inr ?done"
    by (simp add: exampleWorld_def)
  have pend: "\<forall>k. stillRunning resolvedFlags pendingWorld ''operation-1'' k"
    by (simp add: stillRunning_def pendingWorld_def)
  have pz: "proj resolvedFlags = ''symbolic-datum-552''" "zone resolvedFlags = ''us-central1-f''"
    by (simp_all add: resolvedFlags_def defaultFlags_def)
  have w2: "waiting resolvedFlags ''operation-1'' 2 =
      [Sleep 2, OperationsGetCall ''symbolic-datum-552'' ''us-central1-f'' ''operation-1'',
       Log (WaitingOnOperation ''operation-1''),
       Sleep 2, OperationsGetCall ''symbolic-datum-552'' ''us-central1-f'' ''operation-1'',
       Log (WaitingOnOperation ''operation-1'')]"
    by (simp add: waiting_def numeral_2_eq_2 pz)
  have a: "OpLoop resolvedFlags exampleWorld ''operation-1'' 0 [] =
      Some (Inr (), waiting resolvedFlags ''operation-1'' 2 @
        [Sleep 2, OperationsGetCall (proj resolvedFlags) (zone resolvedFlags) ''operation-1'',
         Log (Success ?done)])"
    using OpLoop_ends_at_DONE [of 2 resolvedFlags exampleWorld "''operation-1''" ?done "[]"] run resp
    by (simp add: Let_def)
  have b: "OpLoop resolvedFlags pendingWorld ''operation-1'' 0 [] = None"
    using OpLoop_ends_at_DONE [of 0 resolvedFlags pendingWorld "''operation-1''" ?done "[]"] pend
    by blast
  from a b show ?thesis by (simp add: w2 pz)
qed

subsection \<open>Unknown operation status\<close>

text \<open>
  Claim C7.  When a poll response carries a status other than \<open>PENDING\<close>, \<open>RUNNING\<close>
  and \<open>DONE\<close>, the run ends at once with the fatal error \<open>UnknownStatus\<close> for that
  status: the poll that returned it is the last event of the run, so the loop does not
  poll again and the instance is not fetched.
\<close>

theorem unknown_status_aborts:
  assumes "prepare f0 w = (Inr (f, opName), tr0)"
    and "\<forall>k<m. stillRunning f w opName k"
    and "ZoneOperations_Get w m (proj f) (zone f) opName = Inr op"
    and "op_Status op \<notin> {''PENDING'', ''RUNNING'', ''DONE''}"
  shows "main f0 w =
           Some (Inl (UnknownStatus (op_Status op) op),
                 tr0 @ waiting f opName m @ [Sleep 2, OperationsGetCall (proj f) (zone f) opName])"
proof -
  from assms(2) have "\<forall>k<m. stillRunning f w opName (0 + k)" by simp
  then have "OpLoop f w opName 0 tr0 = OpLoop f w opName m (tr0 @ waiting f opName m)"
    using OpLoop_waiting [of m f w opName 0 tr0] by simp
  also have "\<dots> = Some (Inl (UnknownStatus (op_Status op) op),
      (tr0 @ waiting f opName m) @ [Sleep 2, OperationsGetCall (proj f) (zone f) opName])"
    using assms(3,4) by (intro OpLoop_unknown) auto
  finally show ?thesis
    using assms(1) by (simp add: main_after_prepare)
qed

theorem unknown_status_aborts_witness:
  "outcome (main defaultFlags driftWorld) =
     Some (Inl (UnknownStatus ''ABORTING''
                  \<lparr>op_Name = ''operation-1'', op_Status = ''ABORTING'', op_Error = None\<rparr>))"
proof -
  have prep: "prepare defaultFlags driftWorld =
                (Inr (resolvedFlags, ''operation-1''), snd (prepare defaultFlags driftWorld))"
    using prepare_drift by (simp add: prod_eq_iff)
  have run: "\<forall>k<3. stillRunning resolvedFlags driftWorld ''operation-1'' k"
    by (simp add: stillRunning_def driftWorld_def)
  have resp: "ZoneOperations_Get driftWorld 3 (proj resolvedFlags) (zone resolvedFlags) ''operation-1'' =
                Inr \<lparr>op_Name = ''operation-1'', op_Status = ''ABORTING'', op_Error = None\<rparr>"
    by (simp add: driftWorld_def)
  show ?thesis
    using unknown_status_aborts [OF prep run resp] by (simp add: outcome_def)
qed

subsection \<open>The \<open>DONE\<close> response\<close>

lemma prepare_doneEmptyError:
  "fst (prepare defaultFlags doneEmptyErrorWorld) = Inr (resolvedFlags, ''operation-1'')"
  by (simp add: run_defs doneEmptyErrorWorld_def)

lemma prepare_fetchFails:
  "fst (prepare defaultFlags fetchFailsWorld) = Inr (resolvedFlags, ''operation-1'')"
  by (simp add: run_defs fetchFailsWorld_def)

lemma prepare_doneErrors:
  "fst (prepare defaultFlags doneErrorsWorld) = Inr (resolvedFlags, ''operation-1'')"
  by (simp add: run_defs doneErrorsWorld_def)

lemma resolvedFlags_simps:
  "proj resolvedFlags = ''symbolic-datum-552''" "zone resolvedFlags = ''us-central1-f''"
  "instName resolvedFlags = ''farmer''"
  by (simp_all add: resolvedFlags_def defaultFlags_def)

lemma main_reaches_poll:
  assumes "prepare f0 w = (Inr (f, opName), tr0)" and "\<forall>k<m. stillRunning f w opName k"
  shows "main f0 w =
     (case OpLoop f w opName m (tr0 @ waiting f opName m) of
        None \<Rightarrow> None
      | Some (Inl e, tr') \<Rightarrow> Some (Inl e, tr')
      | Some (Inr u, tr') \<Rightarrow> Some (andThen (Inr (), tr') (\<lambda>_. fetchInstance f w)))"
proof -
  from assms(2) have "\<forall>k<m. stillRunning f w opName (0 + k)" by simp
  then have "OpLoop f w opName 0 tr0 = OpLoop f w opName m (tr0 @ waiting f opName m)"
    using OpLoop_waiting [of m f w opName 0 tr0] by simp
  with assms(1) show ?thesis by (simp add: main_after_prepare)
qed

lemma no_fetch_prepare:
  "prepare f0 w = (r, tr0) \<Longrightarrow> filter isInstancesGetCall tr0 = []"
  using prepare_trace [of f0 w]
  by (auto simp: traceAll_def noFetchNoPoll_def list_all_iff filter_empty_conv)

text \<open>
  Claim C5, as amended.  When the poll loop receives a \<open>DONE\<close> response, what decides
  is whether the operation carries an error object (\<open>op.Error != nil\<close>), not whether the
  list inside it is empty.  With an error object, every sub-error of its list is logged,
  in order, and the run then ends with the fatal error \<open>FailedToStart\<close>, without
  fetching the instance; this is so for an empty list too.  Without an error object
  the loop ends with success and the run fetches the created instance exactly once;
  the run succeeds when that fetch succeeds and ends with \<open>ErrorGettingInstance\<close>
  when it fails.
\<close>

theorem done_response_handling:
  assumes "prepare f0 w = (Inr (f, opName), tr0)"
    and "\<forall>k<m. stillRunning f w opName k"
    and "ZoneOperations_Get w m (proj f) (zone f) opName = Inr op"
    and "op_Status op = ''DONE''"
  shows "case op_Error op of
           Some errors \<Rightarrow>
             main f0 w =
               Some (Inl FailedToStart,
                     tr0 @ waiting f opName m @ [Sleep 2, OperationsGetCall (proj f) (zone f) opName]
                       @ map (\<lambda>operr. Log (OpError operr)) errors)
         | None \<Rightarrow>
             (let tr = tr0 @ waiting f opName m @
                         [Sleep 2, OperationsGetCall (proj f) (zone f) opName, Log (Success op),
                          InstancesGetCall (proj f) (zone f) (instName f)]
              in length (filter isInstancesGetCall tr) = 1 \<and>
                 main f0 w =
                   Some (case Instances_Get w (proj f) (zone f) (instName f) of
                           Inl err \<Rightarrow> (Inl (ErrorGettingInstance err), tr)
                         | Inr inst \<Rightarrow> (Inr (), tr @ [Log (InstanceJSON inst)])))"
proof (cases "op_Error op")
  case None
  have one: "length (filter isInstancesGetCall (tr0 @ waiting f opName m @
               [Sleep 2, OperationsGetCall (proj f) (zone f) opName, Log (Success op),
                InstancesGetCall (proj f) (zone f) (instName f)])) = 1"
    using no_fetch_prepare [OF assms(1)]
    by (simp add: no_fetch_waiting isInstancesGetCall_def)
  have "OpLoop f w opName m (tr0 @ waiting f opName m) =
          Some (Inr (), (tr0 @ waiting f opName m) @
            [Sleep 2, OperationsGetCall (proj f) (zone f) opName, Log (Success op)])"
    using assms(3,4) None by (rule OpLoop_done_success)
  then have "main f0 w = Some (andThen (Inr (), (tr0 @ waiting f opName m) @
            [Sleep 2, OperationsGetCall (proj f) (zone f) opName, Log (Success op)])
            (\<lambda>_. fetchInstance f w))"
    using main_reaches_poll [OF assms(1,2)] by simp
  then have "main f0 w =
      Some (case Instances_Get w (proj f) (zone f) (instName f) of
              Inl err \<Rightarrow> (Inl (ErrorGettingInstance err), tr0 @ waiting f opName m @
                 [Sleep 2, OperationsGetCall (proj f) (zone f) opName, Log (Success op),
                  InstancesGetCall (proj f) (zone f) (instName f)])
            | Inr inst \<Rightarrow> (Inr (), (tr0 @ waiting f opName m @
                 [Sleep 2, OperationsGetCall (proj f) (zone f) opName, Log (Success op),
                  InstancesGetCall (proj f) (zone f) (instName f)]) @ [Log (InstanceJSON inst)]))"
    by (simp add: fetchInstance_eq split: sum.splits)
  with one None show ?thesis by (simp add: Let_def)
next
  case (Some errors)
  have "OpLoop f w opName m (tr0 @ waiting f opName m) =
          Some (Inl FailedToStart, (tr0 @ waiting f opName m) @
            [Sleep 2, OperationsGetCall (proj f) (zone f) opName] @ map (\<lambda>operr. Log (OpError operr)) errors)"
    using assms(3,4) Some by (rule OpLoop_done_error)
  then have "main f0 w = Some (Inl FailedToStart, (tr0 @ waiting f opName m) @
            [Sleep 2, OperationsGetCall (proj f) (zone f) opName] @ map (\<lambda>operr. Log (OpError operr)) errors)"
    using main_reaches_poll [OF assms(1,2)] by simp
  with Some show ?thesis by simp
qed

theorem done_response_handling_witness:
  "main defaultFlags doneErrorsWorld =
     Some (Inl FailedToStart,
           snd (prepare defaultFlags doneErrorsWorld) @
           [Sleep 2, OperationsGetCall ''symbolic-datum-552'' ''us-central1-f'' ''operation-1'',
            Log (WaitingOnOperation ''operation-1''),
            Sleep 2, OperationsGetCall ''symbolic-datum-552'' ''us-central1-f'' ''operation-1'',
            Log (OpError quotaError), Log (OpError zoneError)])
   \<and> main defaultFlags exampleWorld =
     Some (Inr (),
           snd (prepare defaultFlags exampleWorld) @
           [Sleep 2, OperationsGetCall ''symbolic-datum-552'' ''us-central1-f'' ''operation-1'',
            Log (WaitingOnOperation ''operation-1''),
            Sleep 2, OperationsGetCall ''symbolic-datum-552'' ''us-central1-f'' ''operation-1'',
            Log (WaitingOnOperation ''operation-1''),
            Sleep 2, OperationsGetCall ''symbolic-datum-552'' ''us-central1-f'' ''operation-1'',
            Log (Success \<lparr>op_Name = ''operation-1'', op_Status = ''DONE'', op_Error = None\<rparr>),
            InstancesGetCall ''symbolic-datum-552'' ''us-central1-f'' ''farmer'',
            Log (InstanceJSON exampleInstance)])"
proof -
  let ?failed = "\<lparr>op_Name = ''operation-1'', op_Status = ''DONE'', op_Error = Some [quotaError, zoneError]\<rparr>"
  let ?done = "\<lparr>op_Name = ''operation-1'', op_Status = ''DONE'', op_Error = None\<rparr>"
  have prepE: "prepare defaultFlags doneErrorsWorld =
                (Inr (resolvedFlags, ''operation-1''), snd (prepare defaultFlags doneErrorsWorld))"
    using prepare_doneErrors by (simp add: prod_eq_iff)
  have runE: "\<forall>k<1. stillRunning resolvedFlags doneErrorsWorld ''operation-1'' k"
    by (simp add: stillRunning_def doneErrorsWorld_def)
  have respE: "ZoneOperations_Get doneErrorsWorld 1 (proj resolvedFlags) (zone resolvedFlags) ''operation-1'' = Inr ?failed"
    by (simp add: doneErrorsWorld_def)
  have a: "main defaultFlags doneErrorsWorld =
     Some (Inl FailedToStart,
           snd (prepare defaultFlags doneErrorsWorld) @ waiting resolvedFlags ''operation-1'' 1 @
           [Sleep 2, OperationsGetCall (proj resolvedFlags) (zone resolvedFlags) ''operation-1'']
             @ map (\<lambda>operr. Log (OpError operr)) [quotaError, zoneError])"
    using done_response_handling [OF prepE runE respE] by simp
  have prepS: "prepare defaultFlags exampleWorld =
                (Inr (resolvedFlags, ''operation-1''), snd (prepare defaultFlags exampleWorld))"
    using prepare_example by (simp add: prod_eq_iff)
  have runS: "\<forall>k<2. stillRunning resolvedFlags exampleWorld ''operation-1'' k"
    by (simp add: stillRunning_def exampleWorld_def)
  have respS: "ZoneOperations_Get exampleWorld 2 (proj resolvedFlags) (zone resolvedFlags) ''operation-1'' = Inr ?done"
    by (simp add: exampleWorld_def)
  have fetch: "Instances_Get exampleWorld (proj resolvedFlags) (zone resolvedFlags) (instName resolvedFlags) = Inr exampleInstance"
    by (simp add: exampleWorld_def)
  have b: "main defaultFlags exampleWorld =
     Some (Inr (),
           (snd (prepare defaultFlags exampleWorld) @ waiting resolvedFlags ''operation-1'' 2 @
           [Sleep 2, OperationsGetCall (proj resolvedFlags) (zone resolvedFlags) ''operation-1'',
            Log (Success ?done),
            InstancesGetCall (proj resolvedFlags) (zone resolvedFlags) (instName resolvedFlags)]) @
            [Log (InstanceJSON exampleInstance)])"
    using done_response_handling [OF prepS runS respS] fetch by (simp add: Let_def)
  from a b show ?thesis
    by (simp add: resolvedFlags_simps waiting_def numeral_2_eq_2)
qed

text \<open>
  The claim as stated fails on two inputs: a \<open>DONE\<close> response whose error object holds
  an empty list makes the run fail, and a \<open>DONE\<close> response without error makes the
  run fail when the fetch of the instance fails.
\<close>

theorem done_response_handling_counterexample:
  "ZoneOperations_Get doneEmptyErrorWorld 0 ''symbolic-datum-552'' ''us-central1-f'' ''operation-1'' =
     Inr \<lparr>op_Name = ''operation-1'', op_Status = ''DONE'', op_Error = Some []\<rparr>
   \<and> outcome (main defaultFlags doneEmptyErrorWorld) = Some (Inl FailedToStart)
   \<and> ZoneOperations_Get fetchFailsWorld 2 ''symbolic-datum-552'' ''us-central1-f'' ''operation-1'' =
     Inr \<lparr>op_Name = ''operation-1'', op_Status = ''DONE'', op_Error = None\<rparr>
   \<and> outcome (main defaultFlags fetchFailsWorld) = Some (Inl (ErrorGettingInstance ''googleapi: Error 404''))"
proof -
  have prepE: "prepare defaultFlags doneEmptyErrorWorld =
                (Inr (resolvedFlags, ''operation-1''), snd (prepare defaultFlags doneEmptyErrorWorld))"
    using prepare_doneEmptyError by (simp add: prod_eq_iff)
  have respE: "ZoneOperations_Get doneEmptyErrorWorld 0 (proj resolvedFlags) (zone resolvedFlags) ''operation-1'' =
     Inr \<lparr>op_Name = ''operation-1'', op_Status = ''DONE'', op_Error = Some []\<rparr>"
    by (simp add: doneEmptyErrorWorld_def)
  have a: "outcome (main defaultFlags doneEmptyErrorWorld) = Some (Inl FailedToStart)"
    using main_reaches_poll [OF prepE, of 0] OpLoop_done_error [OF respE, of "[]"]
    by (simp add: outcome_def)
  have prepF: "prepare defaultFlags fetchFailsWorld =
                (Inr (resolvedFlags, ''operation-1''), snd (prepare defaultFlags fetchFailsWorld))"
    using prepare_fetchFails by (simp add: prod_eq_iff)
  have runF: "\<forall>k<2. stillRunning resolvedFlags fetchFailsWorld ''operation-1'' k"
    by (simp add: stillRunning_def fetchFailsWorld_def exampleWorld_def)
  have respF: "ZoneOperations_Get fetchFailsWorld 2 (proj resolvedFlags) (zone resolvedFlags) ''operation-1'' =
     Inr \<lparr>op_Name = ''operation-1'', op_Status = ''DONE'', op_Error = None\<rparr>"
    by (simp add: fetchFailsWorld_def exampleWorld_def)
  have fetch: "Instances_Get fetchFailsWorld (proj resolvedFlags) (zone resolvedFlags) (instName resolvedFlags) = Inl ''googleapi: Error 404''"
    by (simp add: fetchFailsWorld_def)
  have b: "outcome (main defaultFlags fetchFailsWorld) = Some (Inl (ErrorGettingInstance ''googleapi: Error 404''))"
    using main_reaches_poll [OF prepF runF] OpLoop_done_success [OF respF] fetch
    by (simp add: outcome_def fetchInstance_eq)
  from a b respE respF show ?thesis by (simp add: resolvedFlags_simps)
qed

subsection \<open>The size limit of the startup configuration\<close>

lemma local_no_insert: "traceAll local_event m \<Longrightarrow> filter isInsertCall (snd m) = []"
  by (auto simp: traceAll_def local_event_def list_all_iff filter_empty_conv)

lemma proj_hardCodedIP: "proj (hardCodedIP f) = proj f"
  by (simp add: hardCodedIP_def)

text \<open>
  Claim C2.  Whenever the rendered configuration (the template with the coordinator
  URL substituted, plus the appended key stanzas) is longer than 32768 bytes, building
  the instance fails with \<open>ConfigTooLarge\<close>, the run ends with a fatal error and its
  trace holds no instance-create call.  The fatal error of the run is \<open>ConfigTooLarge\<close>
  itself unless an earlier step of \<open>main\<close> (the project check, the credential, the
  address lookup) has already ended the run.
\<close>

theorem config_too_large:
  assumes "f = hardCodedIP (applyStaging f0)"
    and "renderCloudConfig f w = (Inr c, evs)"
    and "length c > 32768"
  shows "buildInstance f w natIP = (Inl (ConfigTooLarge (length c) 32768), [])
       \<and> (\<exists>e tr. main f0 w = Some (Inl e, tr) \<and> filter isInsertCall tr = []
            \<and> (proj f \<noteq> '''' \<and> \<not> isl (fst (tokenSource f w)) \<and> \<not> isl (fst (resolveNatIP f w))
                 \<longrightarrow> e = ConfigTooLarge (length c) 32768))"
proof -
  have evs: "evs = []"
    using renderCloudConfig_trace [of f w] assms(2) by simp
  have bi: "buildInstance f w n = (Inl (ConfigTooLarge (length c) 32768), [])" for n
    using assms(2,3) evs
    by (simp add: buildInstance_def andThen_def checkCloudConfig_def maxCloudConfig_def fatalf_def)
  obtain r1 t1 where ts: "tokenSource f w = (r1, t1)" by (cases "tokenSource f w")
  obtain r2 t2 where ni: "resolveNatIP f w = (r2, t2)" by (cases "resolveNatIP f w")
  have q1: "filter isInsertCall t1 = []"
    using local_no_insert [OF local_tokenSource, of f w] ts by simp
  have q2: "filter isInsertCall t2 = []"
    using local_no_insert [OF local_resolveNatIP, of f w] ni by simp
  have prep: "prepare f0 w =
      (if proj f = '''' then (Inl MissingProjectFlag, [])
       else case r1 of
              Inl e \<Rightarrow> (Inl e, t1)
            | Inr ts \<Rightarrow> (case r2 of
                          Inl e \<Rightarrow> (Inl e, t1 @ t2)
                        | Inr n \<Rightarrow> (Inl (ConfigTooLarge (length c) 32768), t1 @ t2)))"
  proof -
    have pf: "proj (applyStaging f0) = proj f"
      using assms(1) by (simp add: proj_hardCodedIP)
    show ?thesis
      unfolding prepare_def Let_def assms(1) [symmetric] pf
      by (simp add: ts ni andThen_def bi fatalf_def split: sum.splits)
  qed
  have "\<exists>e tr. main f0 w = Some (Inl e, tr) \<and> filter isInsertCall tr = []
            \<and> (proj f \<noteq> '''' \<and> \<not> isl (fst (tokenSource f w)) \<and> \<not> isl (fst (resolveNatIP f w))
                 \<longrightarrow> e = ConfigTooLarge (length c) 32768)"
    using q1 q2 by (cases r1; cases r2) (simp_all add: main_def prep ts ni)
  with bi show ?thesis by blast
qed

lemma longFlags_adjusted:
  "hardCodedIP (applyStaging longFlags) = longFlags\<lparr>staticIP := ''107.178.219.46''\<rparr>"
  by (simp add: hardCodedIP_def applyStaging_def longFlags_def defaultFlags_def)

theorem config_too_large_witness:
  "outcome (main longFlags exampleWorld) = Some (Inl (ConfigTooLarge 33622 32768))"
proof -
  let ?f = "longFlags\<lparr>staticIP := ''107.178.219.46''\<rparr>"
  let ?c = "configHead @ replicate 33000 (CHR ''a'') @ configTail"
  have adj: "?f = hardCodedIP (applyStaging longFlags)"
    by (simp add: longFlags_adjusted)
  have render: "renderCloudConfig ?f exampleWorld = (Inr ?c, [])"
    by (simp add: renderCloudConfig_def render_base longFlags_def defaultFlags_def exampleWorld_def
        andThen_def ok_def Let_def)
  have len: "length ?c > 32768"
    by (simp add: length_configHead length_configTail)
  have pre: "proj ?f \<noteq> ''''" "\<not> isl (fst (tokenSource ?f exampleWorld))"
    "\<not> isl (fst (resolveNatIP ?f exampleWorld))"
    by (simp_all add: longFlags_def defaultFlags_def tokenSource_def resolveNatIP_def
        exampleWorld_def ok_def Let_def)
  have l: "length ?c = 33622"
    by (simp add: length_configHead length_configTail)
  show ?thesis
    using config_too_large [OF adj render len, of "''''"] pre
    unfolding l by (auto simp: outcome_def)
qed

subsection \<open>The boot disk\<close>

lemma scanDisks_find:
  "scanDisks f dl = map_option (existingDisk f) (find (\<lambda>d. disk_Name d = diskName f) dl)"
  by (induction dl) simp_all

text \<open>
  Claim C4.  For every disk listing \<open>dl\<close>: if \<open>-reuse_disk\<close> is set and \<open>dl\<close> holds a disk
  named \<open><instName>-coreos-stateless-pd\<close>, \<open>instanceDisk\<close> returns a reference to the
  first such disk (its self link as source, auto-delete false, no initialisation
  parameters); otherwise it returns a fresh specification with auto-delete the negation
  of \<open>-reuse_disk\<close>, 50 GB, and the \<open>pd-ssd\<close> disk type URL exactly when \<open>-ssd\<close> is set
  (the empty string otherwise).
\<close>

theorem instanceDisk_resolution:
  assumes "reuseDisk f \<longrightarrow> Disks_List w (proj f) (zone f) = Inr dl"
  shows "if reuseDisk f \<and> (\<exists>d\<in>set dl. disk_Name d = instName f @ ''-coreos-stateless-pd'')
         then \<exists>d. find (\<lambda>d. disk_Name d = instName f @ ''-coreos-stateless-pd'') dl = Some d \<and>
                fst (instanceDisk f w) =
                  Inr \<lparr> AutoDelete = False, Boot = True,
                        DeviceName = instName f @ ''-coreos-stateless-pd'', ad_Type = ''PERSISTENT'',
                        Source = disk_SelfLink d, Mode = ''READ_WRITE'', InitializeParams = None \<rparr>
         else fst (instanceDisk f w) =
                Inr \<lparr> AutoDelete = \<not> reuseDisk f, Boot = True, DeviceName = '''',
                      ad_Type = ''PERSISTENT'', Source = '''', Mode = '''',
                      InitializeParams = Some
                        \<lparr> DiskName = instName f @ ''-coreos-stateless-pd'',
                          SourceImage = imageURL, DiskSizeGb = 50,
                          DiskType = (if ssd f
                                      then ''https://www.googleapis.com/compute/v1/projects/'' @ proj f
                                             @ ''/zones/'' @ zone f @ ''/diskTypes/pd-ssd''
                                      else '''') \<rparr> \<rparr>"
proof (cases "reuseDisk f")
  case False
  then show ?thesis
    by (simp add: instanceDisk_def freshDisk_def diskName_def pdSSD_def ok_def)
next
  case True
  with assms have dl: "Disks_List w (proj f) (zone f) = Inr dl" by simp
  let ?P = "\<lambda>d. disk_Name d = instName f @ ''-coreos-stateless-pd''"
  show ?thesis
  proof (cases "find ?P dl")
    case None
    then have "\<not> (\<exists>d\<in>set dl. ?P d)" by (simp add: find_None_iff)
    with None True dl show ?thesis
      by (simp add: instanceDisk_def scanDisks_find andThen_emit freshDisk_def diskName_def
          pdSSD_def ok_def)
  next
    case (Some d)
    then have "\<exists>d\<in>set dl. ?P d" by (auto simp: find_Some_iff)
    with Some True dl show ?thesis
      by (simp add: instanceDisk_def scanDisks_find andThen_emit existingDisk_def diskName_def ok_def)
  qed
qed

theorem instanceDisk_resolution_witness:
  "fst (instanceDisk defaultFlags diskWorld) =
     Inr \<lparr> AutoDelete = False, Boot = True, DeviceName = ''farmer-coreos-stateless-pd'',
           ad_Type = ''PERSISTENT'', Source = disk_SelfLink farmerDisk, Mode = ''READ_WRITE'',
           InitializeParams = None \<rparr>
   \<and> fst (instanceDisk (defaultFlags\<lparr>reuseDisk := False, ssd := False\<rparr>) diskWorld) =
     Inr \<lparr> AutoDelete = True, Boot = True, DeviceName = '''', ad_Type = ''PERSISTENT'',
           Source = '''', Mode = '''',
           InitializeParams = Some \<lparr> DiskName = ''farmer-coreos-stateless-pd'',
                                     SourceImage = imageURL, DiskSizeGb = 50, DiskType = '''' \<rparr> \<rparr>"
proof -
  have l: "reuseDisk defaultFlags \<longrightarrow>
           Disks_List diskWorld (proj defaultFlags) (zone defaultFlags) = Inr [otherDisk, farmerDisk]"
    by (simp add: diskWorld_def)
  have l2: "reuseDisk (defaultFlags\<lparr>reuseDisk := False, ssd := False\<rparr>) \<longrightarrow>
           Disks_List diskWorld (proj (defaultFlags\<lparr>reuseDisk := False, ssd := False\<rparr>))
             (zone (defaultFlags\<lparr>reuseDisk := False, ssd := False\<rparr>)) = Inr [otherDisk, farmerDisk]"
    by simp
  have a: "fst (instanceDisk defaultFlags diskWorld) =
     Inr \<lparr> AutoDelete = False, Boot = True, DeviceName = ''farmer-coreos-stateless-pd'',
           ad_Type = ''PERSISTENT'', Source = disk_SelfLink farmerDisk, Mode = ''READ_WRITE'',
           InitializeParams = None \<rparr>"
    using instanceDisk_resolution [OF l]
    by (simp add: defaultFlags_def otherDisk_def farmerDisk_def)
  have b: "fst (instanceDisk (defaultFlags\<lparr>reuseDisk := False, ssd := False\<rparr>) diskWorld) =
     Inr \<lparr> AutoDelete = True, Boot = True, DeviceName = '''', ad_Type = ''PERSISTENT'',
           Source = '''', Mode = '''',
           InitializeParams = Some \<lparr> DiskName = ''farmer-coreos-stateless-pd'',
                                     SourceImage = imageURL, DiskSizeGb = 50, DiskType = '''' \<rparr> \<rparr>"
    using instanceDisk_resolution [OF l2]
    by (simp add: defaultFlags_def)
  from a b show ?thesis by simp
qed

subsection \<open>The environment variable \<open>USER\<close>\<close>

text \<open>
  Claim C9.  Take two runs with the same flags and the same files, one with \<open>USER\<close>
  equal to \<open>bradfitz\<close> and one with another value.  The configuration rendered by the
  first is the one rendered by the second followed by one more \<open>ssh_authorized_keys\<close>
  stanza with the hard-coded key, so the two differ: the rendered configuration
  depends on the environment and not on the flags and files alone.
\<close>

theorem bradfitz_stanza:
  assumes "ReadFile w2 = ReadFile w1"
    and "strings_TrimSpace w2 = strings_TrimSpace w1"
    and "Getenv w1 ''USER'' \<noteq> ''bradfitz''"
    and "Getenv w2 ''USER'' = ''bradfitz''"
    and "renderCloudConfig f w1 = (Inr c1, evs)"
  shows "renderCloudConfig f w2 =
           (Inr (c1 @ ''\<newline>ssh_authorized_keys:\<newline>    - '' @ bradfitzKey @ ''\<newline>''), evs)
       \<and> c1 @ ''\<newline>ssh_authorized_keys:\<newline>    - '' @ bradfitzKey @ ''\<newline>'' \<noteq> c1"
proof -
  have rf: "readFile w2 v = readFile w1 v" for v
    using assms(1,2) by (simp add: readFile_def split: sum.splits)
  show ?thesis
    using assms
    by (auto simp: renderCloudConfig_def Let_def rf sshStanza_def andThen_def ok_def
             split: if_splits prod.splits sum.splits)
qed

theorem bradfitz_stanza_witness:
  "renderCloudConfig defaultFlags exampleWorld =
     (Inr (configHead @ coordinator defaultFlags @ configTail), [])
   \<and> renderCloudConfig defaultFlags bradfitzWorld =
     (Inr ((configHead @ coordinator defaultFlags @ configTail)
            @ ''\<newline>ssh_authorized_keys:\<newline>    - '' @ bradfitzKey @ ''\<newline>''), [])"
proof -
  have r1: "renderCloudConfig defaultFlags exampleWorld =
     (Inr (configHead @ coordinator defaultFlags @ configTail), [])"
    by (simp add: renderCloudConfig_def render_base defaultFlags_def exampleWorld_def andThen_def
        ok_def Let_def)
  have h: "ReadFile bradfitzWorld = ReadFile exampleWorld"
    "strings_TrimSpace bradfitzWorld = strings_TrimSpace exampleWorld"
    "Getenv exampleWorld ''USER'' \<noteq> ''bradfitz''"
    "Getenv bradfitzWorld ''USER'' = ''bradfitz''"
    by (simp_all add: bradfitzWorld_def exampleWorld_def)
  from bradfitz_stanza [OF h r1] r1 show ?thesis by simp
qed

subsection \<open>The external address\<close>

lemma find_concat_step:
  "find P (xs @ ys) = (case find P xs of None \<Rightarrow> find P ys | Some x \<Rightarrow> Some x)"
  by (induction xs) simp_all

lemma scanAddresses_find:
  "scanAddresses f asl = map_option addr_Address (find (reservedFor (instName f)) asl)"
  by (induction asl) (simp_all add: reservedFor_def)

lemma IPLoop_find:
  "IPLoop f items natIP =
     (case find (reservedFor (instName f)) (concat (map snd items)) of
        Some a \<Rightarrow> addr_Address a
      | None \<Rightarrow> natIP)"
  by (induction items) (auto simp: scanAddresses_find find_concat_step split: option.splits)

lemma adjusted_fields:
  "instName (hardCodedIP (applyStaging f)) = instName f"
  "proj (hardCodedIP (applyStaging f)) = proj (applyStaging f)"
  "staticIP (applyStaging f) = staticIP f"
  by (simp_all add: hardCodedIP_def applyStaging_def Let_def)

text \<open>
  Claim C3, as amended.  The address given to the instance is determined in this order:
  a non-empty \<open>-static_ip\<close> is used unchanged; otherwise, for the project
  \<open>symbolic-datum-552\<close> the hard-coded address \<open>107.178.219.46\<close> and for the project
  \<open>go-dashboard-dev\<close> the hard-coded address \<open>104.154.113.235\<close> (the project being taken
  after the \<open>-staging\<close> default has been applied); otherwise the address of the first
  listed entry named \<open><instName>-ip\<close> whose status is \<open>RESERVED\<close>; otherwise the empty
  string.  The address list is the concatenation of the scoped lists in the order the
  loop visits them, and a failing list call ends the run.  The list is requested only
  when neither an explicit nor a hard-coded address applies: in the first three cases
  the step makes no call at all, and otherwise it makes the one list call for the
  project.
\<close>

theorem natIP_resolution:
  "resolveNatIP (hardCodedIP (applyStaging f0)) w =
     (let p = proj (applyStaging f0) in
      if staticIP f0 \<noteq> '''' then (Inr (staticIP f0), [])
      else if p = ''symbolic-datum-552'' then (Inr ''107.178.219.46'', [])
      else if p = ''go-dashboard-dev'' then (Inr ''104.154.113.235'', [])
      else (case Addresses_AggregatedList w p of
              Inl err \<Rightarrow> Inl (AggregatedListFailed err)
            | Inr items \<Rightarrow>
                Inr (case find (\<lambda>a. addr_Name a = instName f0 @ ''-ip'' \<and> addr_Status a = ''RESERVED'')
                            (concat (map snd items)) of
                       Some a \<Rightarrow> addr_Address a
                     | None \<Rightarrow> ''''),
            [AggregatedListCall p]))"
proof -
  have rf: "reservedFor (instName f0) = (\<lambda>a. addr_Name a = instName f0 @ ''-ip'' \<and> addr_Status a = ''RESERVED'')"
    by (simp add: reservedFor_def fun_eq_iff)
  have sip: "staticIP (hardCodedIP (applyStaging f0)) =
      (if staticIP f0 \<noteq> '''' then staticIP f0
       else if proj (applyStaging f0) = ''symbolic-datum-552'' then ''107.178.219.46''
       else if proj (applyStaging f0) = ''go-dashboard-dev'' then ''104.154.113.235''
       else '''')"
    by (simp add: hardCodedIP_def adjusted_fields)
  show ?thesis
    unfolding resolveNatIP_def Let_def sip
    by (simp add: adjusted_fields IPLoop_find rf andThen_emit ok_def fatalf_def split: sum.splits)
qed

theorem natIP_resolution_witness:
  "resolveNatIP (hardCodedIP (applyStaging (defaultFlags\<lparr>proj := ''my-project''\<rparr>))) reservedWorld
     = (Inr ''203.0.113.9'', [AggregatedListCall ''my-project''])
   \<and> resolveNatIP (hardCodedIP (applyStaging defaultFlags)) reservedWorld
     = (Inr ''107.178.219.46'', [])
   \<and> resolveNatIP (hardCodedIP (applyStaging (defaultFlags\<lparr>staging := True\<rparr>))) reservedWorld
     = (Inr ''104.154.113.235'', [])
   \<and> resolveNatIP (hardCodedIP (applyStaging (defaultFlags\<lparr>staticIP := ''198.51.100.7''\<rparr>))) reservedWorld
     = (Inr ''198.51.100.7'', [])"
proof -
  have a: "resolveNatIP (hardCodedIP (applyStaging (defaultFlags\<lparr>proj := ''my-project''\<rparr>))) reservedWorld
     = (Inr ''203.0.113.9'', [AggregatedListCall ''my-project''])"
    using natIP_resolution [of "defaultFlags\<lparr>proj := ''my-project''\<rparr>" reservedWorld]
    by (simp add: applyStaging_def defaultFlags_def reservedWorld_def farmerAddress_def)
  have b: "resolveNatIP (hardCodedIP (applyStaging defaultFlags)) reservedWorld
     = (Inr ''107.178.219.46'', [])"
    using natIP_resolution [of defaultFlags reservedWorld]
    by (simp add: applyStaging_def defaultFlags_def)
  have c: "resolveNatIP (hardCodedIP (applyStaging (defaultFlags\<lparr>staging := True\<rparr>))) reservedWorld
     = (Inr ''104.154.113.235'', [])"
    using natIP_resolution [of "defaultFlags\<lparr>staging := True\<rparr>" reservedWorld]
    by (simp add: applyStaging_def defaultFlags_def)
  have d: "resolveNatIP (hardCodedIP (applyStaging (defaultFlags\<lparr>staticIP := ''198.51.100.7''\<rparr>))) reservedWorld
     = (Inr ''198.51.100.7'', [])"
    using natIP_resolution [of "defaultFlags\<lparr>staticIP := ''198.51.100.7''\<rparr>" reservedWorld]
    by (simp add: applyStaging_def defaultFlags_def)
  from a b c d show ?thesis by simp
qed

text \<open>
  The claim as stated leaves out the hard-coded addresses: with the default flags the
  project is \<open>symbolic-datum-552\<close>, and although the project has a reserved address
  \<open>farmer-ip\<close>, which the stated order would return, the run uses \<open>107.178.219.46\<close>.
\<close>

theorem natIP_resolution_counterexample:
  "Addresses_AggregatedList reservedWorld ''symbolic-datum-552'' = Inr [(''regions/us-central1'', [farmerAddress])]
   \<and> spec_resolve (staticIP defaultFlags) (instName defaultFlags) [farmerAddress] = ''203.0.113.9''
   \<and> fst (resolveNatIP (hardCodedIP (applyStaging defaultFlags)) reservedWorld) = Inr ''107.178.219.46''"
  by (simp add: reservedWorld_def spec_resolve_def reservedFor_def farmerAddress_def defaultFlags_def
      resolveNatIP_def hardCodedIP_def applyStaging_def ok_def)

subsection \<open>Service-account scopes\<close>

text \<open>
  Claim C8, as amended.  Whatever the flags and the world, an instance description that
  is built requests for its one service account exactly the three scopes
  \<open>DevstorageFullControlScope\<close> (storage full control), \<open>ComputeScope\<close> and
  \<open>CloudPlatformScope\<close>, in this order.
\<close>

theorem scopes_fixed:
  "buildInstance f w natIP = (Inr inst, evs) \<Longrightarrow>
   map Scopes (ServiceAccounts inst) = [[DevstorageFullControlScope, ComputeScope, CloudPlatformScope]]"
  by (auto simp: buildInstance_def instanceLiteral_def andThen_def ok_def
           split: prod.splits sum.splits)

lemma buildInstance_example:
  "\<not> isl (fst (buildInstance resolvedFlags exampleWorld ''107.178.219.46''))"
  by (simp add: buildInstance_def instanceLiteral_def instanceDisk_def renderCloudConfig_def
      render_base checkCloudConfig_def maxCloudConfig_def length_configHead length_configTail
      resolvedFlags_def defaultFlags_def exampleWorld_def fst_andThen andThen_emit andThen_ok
      ok_def Let_def)

theorem scopes_fixed_witness:
  "scopesOf (buildInstance resolvedFlags exampleWorld ''107.178.219.46'') =
     [DevstorageFullControlScope, ComputeScope, CloudPlatformScope]"
proof -
  obtain r evs where b: "buildInstance resolvedFlags exampleWorld ''107.178.219.46'' = (r, evs)"
    by (cases "buildInstance resolvedFlags exampleWorld ''107.178.219.46''")
  with buildInstance_example obtain inst where r: "r = Inr inst"
    by (cases r) auto
  from scopes_fixed [OF b [unfolded r]] b r show ?thesis
    by (simp add: scopesOf_def)
qed

text \<open>
  The storage scope of the claim as stated, read-write, is another scope of the client
  library (\<open>DevstorageReadWriteScope\<close>); it is not among the scopes requested.
\<close>

theorem scopes_fixed_counterexample:
  "scopesOf (buildInstance resolvedFlags exampleWorld ''107.178.219.46'')
     \<noteq> [DevstorageReadWriteScope, ComputeScope, CloudPlatformScope]
   \<and> DevstorageReadWriteScope \<notin> set (scopesOf (buildInstance resolvedFlags exampleWorld ''107.178.219.46''))"
proof -
  have "scopesOf (buildInstance resolvedFlags exampleWorld ''107.178.219.46'') =
     [DevstorageFullControlScope, ComputeScope, CloudPlatformScope]"
    by (simp add: scopesOf_def buildInstance_def instanceLiteral_def instanceDisk_def renderCloudConfig_def
      render_base checkCloudConfig_def maxCloudConfig_def length_configHead length_configTail
      resolvedFlags_def defaultFlags_def exampleWorld_def fst_andThen andThen_emit andThen_ok
      ok_def Let_def)
  then show ?thesis
    by (simp add: DevstorageFullControlScope_def DevstorageReadWriteScope_def ComputeScope_def
        CloudPlatformScope_def)
qed

subsection \<open>Credential acquisition\<close>

text \<open>
  Whenever the default credential is not found and \<open>tokenSource\<close> returns at all, it
  returns the nil token source: the sources it builds are assigned to \<open>tokenSource\<close>,
  and \<open>tokensource\<close> is returned.
\<close>

lemma tokenSource_fallback_nil:
  "DefaultTokenSource w = Inl err \<Longrightarrow> fst (tokenSource f w) = Inr r \<Longrightarrow> r = None"
  by (auto simp: tokenSource_def Let_def fst_andThen andThen_emit readFile_def ok_def fatalf_def
                 andThen_def
           split: sum.splits prod.splits option.splits)

text \<open>
  Once the two client files have been read, the only fatal exits of \<open>tokenSource\<close> are
  a failed exchange and a failed write of the cache file.
\<close>

lemma tokenSource_fatal_exits:
  assumes "DefaultTokenSource w = Inl err0"
    and "ReadFile w (stagingPrefix f @ ''client-id.dat'') = Inr clientID"
    and "ReadFile w (stagingPrefix f @ ''client-secret.dat'') = Inr clientSecret"
    and "fst (tokenSource f w) = Inl e"
  shows "(\<exists>err. e = ErrorExchanging err) \<or> (\<exists>err. e = ErrorWriting (stagingPrefix f @ ''token.dat'') err)"
  using assms
  by (auto simp: tokenSource_def Let_def readFile_def andThen_def emit_def ok_def fatalf_def
           split: sum.splits prod.splits option.splits)

text \<open>
  Claim C1 says that when no default credential is found, no cached token can be read,
  and the exchange of the authorization code and the write of the cache file both
  succeed, \<open>tokenSource\<close> returns a token source built from the exchanged token.  In
  such a run the code does exchange the code and write the cache file, and then returns
  nil instead of \<open>ReuseTokenSource (Some token) None\<close>.
\<close>

theorem tokenSource_returns_nil:
  "tokenSource defaultFlags interactiveWorld =
     (Inr None,
      [Log (ErrorGettingToken ''token.dat'' ''no such file or directory''),
       Log (GetAuthCodeFrom ''id-1''),
       Print ''\<newline>Enter auth code: '',
       ExchangeCall ''4/code'',
       WriteFileCall ''token.dat'' ''access_token=ya29.token''])"
  by (simp add: tokenSource_def interactiveWorld_def exampleWorld_def defaultFlags_def
      stagingPrefix_def readFile_def tokenCacheFile_Token_def tokenCacheFile_WriteToken_def
      TrimSpace_ascii_def isSpaceASCII_def exchangedToken_def andThen_def emit_def ok_def
      fatalf_def Let_def)

end
